theory Spec2Isabelle
  imports Main "HOL-Library.Word"
begin

section \<open>Data model of \<open>sasm.h\<close>\<close>

text \<open>
  The header wraps two operating-system facilities, a named semaphore and a named
  shared-memory segment, and selects between two implementations with
  \<^verbatim>\<open>#ifdef _WIN32\<close>. The model keeps one definition per member function and
  branches on the compilation target where the source branches on \<^verbatim>\<open>_WIN32\<close>.

  Pointers, \<^verbatim>\<open>HANDLE\<close>s and file descriptors are opaque references that the code only
  stores, compares and hands back to the operating system. They are modelled by their
  numeric value as \<open>int\<close>: \<^verbatim>\<open>nullptr\<close> is \<open>0\<close>, a descriptor is its number.
  \<^verbatim>\<open>unsigned int\<close> is a 32-bit word; \<^verbatim>\<open>std::size_t\<close>, \<^verbatim>\<open>time_t\<close> and \<^verbatim>\<open>long\<close>
  are 64-bit words (the LP64 data model), the last two read as two's complement.
  The \<^verbatim>\<open>int\<close> arguments \<^verbatim>\<open>count\<close> and \<^verbatim>\<open>initial_count\<close> are only compared and
  passed on, so they are mathematical integers.
\<close>

type_synonym ptr = int

definition nullptr :: ptr where
  "nullptr = 0"

text \<open>\<^verbatim>\<open>#define INFINITE ((unsigned int)-1)\<close>\<close>

definition INFINITE :: "32 word" where
  "INFINITE = - 1"

text \<open>\<^verbatim>\<open>struct timespec\<close> of the descriptor-style target.\<close>

record timespec =
  tv_sec :: "64 word"
  tv_nsec :: "64 word"

text \<open>
  The compilation target: whether \<^verbatim>\<open>_WIN32\<close> is defined, and the values of the macros
  that the system headers (which are not part of the repository) supply.
\<close>

record target =
  win32 :: bool
  SEM_FAILED :: ptr
  MAP_FAILED :: ptr
  WAIT_OBJECT_0 :: int

text \<open>
  The calls the header makes into the operating system, with the arguments that vary.
  \<open>Fd_close\<close> is the descriptor-closing \<^verbatim>\<open>close(int)\<close> of \<^verbatim>\<open>unistd.h\<close>.
\<close>

datatype os_call =
    Sem_open string int
  | Sem_close ptr
  | Sem_unlink string
  | Sem_post ptr
  | Sem_wait ptr
  | Clock_gettime
  | Sem_timedwait ptr timespec
  | CreateSemaphoreA int string
  | CloseHandle ptr
  | WaitForSingleObject ptr "32 word"
  | ReleaseSemaphore ptr int
  | Shm_open string
  | Ftruncate int "64 word"
  | Fd_close int
  | Shm_unlink string
  | Mmap "64 word" int
  | Munmap ptr "64 word"
  | CreateFileMappingA "64 word" string
  | MapViewOfFile ptr "64 word"
  | UnmapViewOfFile ptr

text \<open>
  The operating system is the environment. \<open>reply w k c\<close> is what it returns to the
  call \<open>c\<close> when \<open>k\<close> calls have been made before, \<open>clock w k\<close> is the reading of the
  real-time clock at that moment, and \<open>trace w\<close> is the log of the calls made so far,
  oldest first, each with the value it returned. Quantifying over \<open>reply\<close> covers
  every outcome of every call.
\<close>

record world =
  reply :: "nat \<Rightarrow> os_call \<Rightarrow> int"
  clock :: "nat \<Rightarrow> timespec"
  trace :: "(os_call \<times> int) list"

definition syscall :: "os_call \<Rightarrow> world \<Rightarrow> int \<times> world" where
  "syscall c w =
     (let r = reply w (length (trace w)) c
      in (r, w\<lparr>trace := trace w @ [(c, r)]\<rparr>))"

definition clock_gettime :: "world \<Rightarrow> timespec \<times> world" where
  "clock_gettime w =
     (clock w (length (trace w)), w\<lparr>trace := trace w @ [(Clock_gettime, 0)]\<rparr>)"

text \<open>
  \<^verbatim>\<open>class Semaphore\<close>: the fields \<^verbatim>\<open>name\<close> and \<^verbatim>\<open>object\<close>. The two classes both have
  a field \<^verbatim>\<open>name\<close>, so the fields carry the class as a prefix.
\<close>

record Semaphore =
  sem_name :: string
  sem_object :: ptr

text \<open>\<^verbatim>\<open>static constexpr int max_count{ 1024 }\<close>\<close>

definition max_count :: int where
  "max_count = 1024"

text \<open>The default constructor: \<^verbatim>\<open>std::string name; sem_t* object{ nullptr }\<close>.\<close>

definition Semaphore_default :: Semaphore where
  "Semaphore_default = \<lparr>sem_name = [], sem_object = nullptr\<rparr>"

text \<open>
  \<^verbatim>\<open>class Shared_Memory\<close>. \<^verbatim>\<open>file_mapping\<close> is a \<^verbatim>\<open>HANDLE\<close> initialised to
  \<^verbatim>\<open>nullptr\<close> on the handle-style target and an \<^verbatim>\<open>int\<close> initialised to \<open>-1\<close> on the
  descriptor-style one.
\<close>

record Shared_Memory =
  shm_name :: string
  shm_size :: "64 word"
  shm_address :: ptr
  shm_file_mapping :: int

definition no_mapping :: "target \<Rightarrow> int" where
  "no_mapping t = (if win32 t then nullptr else - 1)"

definition Shared_Memory_default :: "target \<Rightarrow> Shared_Memory" where
  "Shared_Memory_default t =
     \<lparr>shm_name = [], shm_size = 0, shm_address = nullptr, shm_file_mapping = no_mapping t\<rparr>"

section \<open>Semaphore\<close>

text \<open>
  The release loop of \<^verbatim>\<open>Semaphore::increment\<close> on the descriptor-style target:
  \<^verbatim>\<open>for (int i = 0; i < count; ++i) if (sem_post(object) != 0) success = false;\<close>
\<close>

function post_loop :: "ptr \<Rightarrow> int \<Rightarrow> int \<Rightarrow> bool \<Rightarrow> world \<Rightarrow> bool \<times> world" where
  "post_loop obj count i success w =
     (if i < count then
        post_loop obj count (i + 1)
          (if fst (syscall (Sem_post obj) w) \<noteq> 0 then False else success)
          (snd (syscall (Sem_post obj) w))
      else (success, w))"
  by pat_completeness auto
termination
  by (relation "measure (\<lambda>(obj, count, i, success, w). nat (count - i))") auto

declare post_loop.simps [simp del]

definition Semaphore_increment :: "target \<Rightarrow> int \<Rightarrow> Semaphore \<Rightarrow> world \<Rightarrow> bool \<times> world" where
  "Semaphore_increment t count s w =
     (if sem_object s = nullptr then (False, w)
      else if win32 t then
        (let (r, w') = syscall (ReleaseSemaphore (sem_object s) count) w
         in (r \<noteq> 0, w'))
      else post_loop (sem_object s) count 0 True w)"

definition Semaphore_close :: "target \<Rightarrow> Semaphore \<Rightarrow> world \<Rightarrow> Semaphore \<times> world" where
  "Semaphore_close t s w =
     (if sem_object s = nullptr then (s, w)
      else
        (let w1 = snd (Semaphore_increment t max_count s w);
             w2 = (if win32 t then snd (syscall (CloseHandle (sem_object s)) w1)
                   else
                     (let w' = snd (syscall (Sem_close (sem_object s)) w1)
                      in if sem_name s \<noteq> [] then snd (syscall (Sem_unlink (sem_name s)) w')
                         else w'))
         in (s\<lparr>sem_object := nullptr, sem_name := []\<rparr>, w2)))"

text \<open>
  The deadline arithmetic of \<^verbatim>\<open>Semaphore::wait\<close>, on the fields of the
  \<^verbatim>\<open>timespec\<close> that \<^verbatim>\<open>clock_gettime\<close> filled in. The quotient and the product are
  computed in \<^verbatim>\<open>unsigned int\<close> and then converted to the type of the field.
\<close>

definition wait_deadline :: "32 word \<Rightarrow> timespec \<Rightarrow> timespec" where
  "wait_deadline timeout_ms ts =
     (let ts1 = ts\<lparr>tv_sec := tv_sec ts + ucast (timeout_ms div 1000)\<rparr>;
          ts2 = ts1\<lparr>tv_nsec := tv_nsec ts1 + ucast ((timeout_ms mod 1000) * 1000000)\<rparr>
      in if 1000000000 \<le> sint (tv_nsec ts2)
         then ts2\<lparr>tv_sec := tv_sec ts2 + 1, tv_nsec := tv_nsec ts2 - 1000000000\<rparr>
         else ts2)"

definition Semaphore_wait :: "target \<Rightarrow> 32 word \<Rightarrow> Semaphore \<Rightarrow> world \<Rightarrow> bool \<times> world" where
  "Semaphore_wait t timeout_ms s w =
     (if sem_object s = nullptr then (False, w)
      else if win32 t then
        (let (r, w') = syscall (WaitForSingleObject (sem_object s) timeout_ms) w
         in (r = WAIT_OBJECT_0 t, w'))
      else if timeout_ms = INFINITE then
        (let (r, w') = syscall (Sem_wait (sem_object s)) w
         in (r = 0, w'))
      else
        (let (ts, w1) = clock_gettime w;
             (r, w2) = syscall (Sem_timedwait (sem_object s) (wait_deadline timeout_ms ts)) w1
         in (r = 0, w2)))"

definition Semaphore_create ::
  "target \<Rightarrow> string \<Rightarrow> int \<Rightarrow> Semaphore \<Rightarrow> world \<Rightarrow> bool \<times> Semaphore \<times> world" where
  "Semaphore_create t name initial_count s w =
     (if name = [] then (False, s, w)
      else
        (let s1 = s\<lparr>sem_name := name\<rparr>
         in if win32 t then
              (let (r, w') = syscall (CreateSemaphoreA initial_count name) w
               in (r \<noteq> nullptr, s1\<lparr>sem_object := r\<rparr>, w'))
            else
              (let (r, w') = syscall (Sem_open name initial_count) w
               in (r \<noteq> SEM_FAILED t, s1\<lparr>sem_object := r\<rparr>, w'))))"

section \<open>Shared memory\<close>

text \<open>
  \<^verbatim>\<open>Shared_Memory::map\<close>. Its first guard compares \<^verbatim>\<open>file_mapping\<close> with
  \<^verbatim>\<open>nullptr\<close> on both targets; on the descriptor-style target, where the field is an
  \<^verbatim>\<open>int\<close>, that is the descriptor \<open>0\<close>. The function returns the address and updates
  the instance.
\<close>

definition Shared_Memory_map :: "target \<Rightarrow> Shared_Memory \<Rightarrow> world \<Rightarrow> ptr \<times> Shared_Memory \<times> world" where
  "Shared_Memory_map t s w =
     (if shm_file_mapping s = nullptr then (nullptr, s, w)
      else if shm_size s = 0 then (nullptr, s, w)
      else if win32 t then
        (let (address, w1) = syscall (MapViewOfFile (shm_file_mapping s) (shm_size s)) w
         in if address = nullptr then
              (address, s\<lparr>shm_file_mapping := nullptr\<rparr>,
               snd (syscall (CloseHandle (shm_file_mapping s)) w1))
            else (address, s, w1))
      else
        (let (address, w1) = syscall (Mmap (shm_size s) (shm_file_mapping s)) w
         in if address = MAP_FAILED t then
              (nullptr, s\<lparr>shm_file_mapping := - 1\<rparr>,
               snd (syscall (Fd_close (shm_file_mapping s)) w1))
            else (address, s, w1)))"

definition Shared_Memory_create ::
  "target \<Rightarrow> string \<Rightarrow> 64 word \<Rightarrow> Shared_Memory \<Rightarrow> world \<Rightarrow> bool \<times> Shared_Memory \<times> world" where
  "Shared_Memory_create t name sz s w =
     (if name = [] then (False, s, w)
      else if sz = 0 then (False, s, w)
      else
        (let s1 = s\<lparr>shm_name := name, shm_size := sz\<rparr>
         in if win32 t then
              (let (h, w1) = syscall (CreateFileMappingA sz name) w;
                   (address, s2, w2) = Shared_Memory_map t (s1\<lparr>shm_file_mapping := h\<rparr>) w1
               in (address \<noteq> nullptr, s2\<lparr>shm_address := address\<rparr>, w2))
            else
              (let (shm_fd, w1) = syscall (Shm_open name) w
               in if shm_fd = - 1 then (False, s1, w1)
                  else
                    (let (r, w2) = syscall (Ftruncate shm_fd sz) w1
                     in if r = - 1 then
                          (False, s1,
                           snd (syscall (Shm_unlink name) (snd (syscall (Fd_close shm_fd) w2))))
                        else
                          (let (address, s2, w3) =
                                 Shared_Memory_map t (s1\<lparr>shm_file_mapping := shm_fd\<rparr>) w2
                           in (address \<noteq> nullptr, s2\<lparr>shm_address := address\<rparr>, w3))))))"

definition Shared_Memory_close :: "target \<Rightarrow> Shared_Memory \<Rightarrow> world \<Rightarrow> Shared_Memory \<times> world" where
  "Shared_Memory_close t s w =
     (if shm_file_mapping s = no_mapping t then (s, w)
      else
        (let w2 =
               (if win32 t then
                  (let w1 = (if shm_address s \<noteq> nullptr
                             then snd (syscall (UnmapViewOfFile (shm_address s)) w) else w)
                   in snd (syscall (CloseHandle (shm_file_mapping s)) w1))
                else
                  (let w1 = (if shm_address s \<noteq> nullptr
                             then snd (syscall (Munmap (shm_address s) (shm_size s)) w) else w);
                       w' = snd (syscall (Fd_close (shm_file_mapping s)) w1)
                   in if shm_name s \<noteq> [] then snd (syscall (Shm_unlink (shm_name s)) w')
                      else w'))
         in (s\<lparr>shm_name := [], shm_size := 0, shm_address := nullptr,
               shm_file_mapping := no_mapping t\<rparr>, w2)))"

section \<open>Sequences of calls, and the vocabulary of the properties\<close>

text \<open>
  A client drives a semaphore through its public member functions. \<open>Semaphore_calls\<close>
  runs a list of such calls, first to last, on a default-constructed instance; the
  results the calls return are dropped, the instance and the environment are kept.
\<close>

datatype sem_call = Create string int | Wait "32 word" | Increment int | Close

fun Semaphore_call :: "target \<Rightarrow> sem_call \<Rightarrow> Semaphore \<times> world \<Rightarrow> Semaphore \<times> world" where
  "Semaphore_call t (Create name initial_count) (s, w) = snd (Semaphore_create t name initial_count s w)"
| "Semaphore_call t (Wait timeout_ms) (s, w) = (s, snd (Semaphore_wait t timeout_ms s w))"
| "Semaphore_call t (Increment count) (s, w) = (s, snd (Semaphore_increment t count s w))"
| "Semaphore_call t Close (s, w) = Semaphore_close t s w"

definition Semaphore_calls :: "target \<Rightarrow> sem_call list \<Rightarrow> world \<Rightarrow> Semaphore \<times> world" where
  "Semaphore_calls t cs w = fold (Semaphore_call t) cs (Semaphore_default, w)"

text \<open>
  The public member functions of a segment that change it are \<^verbatim>\<open>create\<close> and
  \<^verbatim>\<open>close\<close>; \<open>Shared_Memory_calls\<close> runs a list of them on a default-constructed
  instance.
\<close>

datatype shm_call = Create_segment string "64 word" | Close_segment

fun Shared_Memory_call ::
  "target \<Rightarrow> shm_call \<Rightarrow> Shared_Memory \<times> world \<Rightarrow> Shared_Memory \<times> world" where
  "Shared_Memory_call t (Create_segment name sz) (m, w) = snd (Shared_Memory_create t name sz m w)"
| "Shared_Memory_call t Close_segment (m, w) = Shared_Memory_close t m w"

definition Shared_Memory_calls :: "target \<Rightarrow> shm_call list \<Rightarrow> world \<Rightarrow> Shared_Memory \<times> world" where
  "Shared_Memory_calls t cs w = fold (Shared_Memory_call t) cs (Shared_Memory_default t, w)"

text \<open>A mapped address comes with a backing handle.\<close>

definition address_has_mapping :: "target \<Rightarrow> Shared_Memory \<Rightarrow> bool" where
  "address_has_mapping t m = (shm_address m = nullptr \<or> shm_file_mapping m \<noteq> no_mapping t)"

text \<open>The two directions of the invariant that relates the handle and the name.\<close>

definition handle_has_name :: "Semaphore \<Rightarrow> bool" where
  "handle_has_name s = (sem_object s = nullptr \<or> sem_name s \<noteq> [])"

definition name_has_handle :: "Semaphore \<Rightarrow> bool" where
  "name_has_handle s = (sem_name s = [] \<or> sem_object s \<noteq> nullptr)"

text \<open>An environment in which no call that creates a semaphore ever returns null.\<close>

definition creation_never_null :: "world \<Rightarrow> bool" where
  "creation_never_null w =
     (\<forall>k name initial_count.
        reply w k (Sem_open name initial_count) \<noteq> nullptr
        \<and> reply w k (CreateSemaphoreA initial_count name) \<noteq> nullptr)"

text \<open>The instant a \<^verbatim>\<open>timespec\<close> denotes, in nanoseconds, as an unbounded integer.\<close>

definition nanoseconds :: "timespec \<Rightarrow> int" where
  "nanoseconds ts = sint (tv_sec ts) * 1000000000 + sint (tv_nsec ts)"

section \<open>Concrete targets and environments\<close>

text \<open>
  Two targets with the macro values of the usual headers, and an environment that
  answers the \<open>k\<close>-th call with the \<open>k\<close>-th entry of a script (and with \<open>0\<close> once
  the script is used up). They are the concrete inputs of the examples below.
\<close>

definition linux_target :: target where
  "linux_target = \<lparr>win32 = False, SEM_FAILED = 0, MAP_FAILED = - 1, WAIT_OBJECT_0 = 0\<rparr>"

definition windows_target :: target where
  "windows_target = \<lparr>win32 = True, SEM_FAILED = 0, MAP_FAILED = - 1, WAIT_OBJECT_0 = 0\<rparr>"

definition scripted :: "int list \<Rightarrow> world" where
  "scripted rs =
     \<lparr>reply = (\<lambda>k c. if k < length rs then rs ! k else 0),
      clock = (\<lambda>k. \<lparr>tv_sec = 1700000000, tv_nsec = 750000000\<rparr>),
      trace = []\<rparr>"

text \<open>An environment that hands out the handle \<open>h\<close> for every semaphore created.\<close>

definition granting :: "ptr \<Rightarrow> world" where
  "granting h =
     \<lparr>reply = (\<lambda>k c. case c of Sem_open _ _ \<Rightarrow> h | CreateSemaphoreA _ _ \<Rightarrow> h | _ \<Rightarrow> 0),
      clock = (\<lambda>k. \<lparr>tv_sec = 1700000000, tv_nsec = 750000000\<rparr>),
      trace = []\<rparr>"

section \<open>Auxiliary facts\<close>

lemma syscall_simps:
  "fst (syscall c w) = reply w (length (trace w)) c"
  "snd (syscall c w) = w\<lparr>trace := trace w @ [(c, reply w (length (trace w)) c)]\<rparr>"
  by (simp_all add: syscall_def Let_def)

lemma all_less_Suc_shift: "(\<forall>k<Suc n. P k) \<longleftrightarrow> (P 0 \<and> (\<forall>k<n. P (Suc k)))"
  by (metis less_Suc_eq_0_disj)

lemma upt_0_Suc_shift: "map f [0..<Suc n] = f 0 # map (\<lambda>k. f (Suc k)) [0..<n]"
  by (simp add: upt_conv_Cons map_Suc_upt [symmetric] del: upt_Suc)

lemma map_fst_const: "map (fst \<circ> (\<lambda>k. (c, f k))) xs = replicate (length xs) c"
  by (induction xs) simp_all

text \<open>
  The release loop in closed form: started at \<open>i\<close>, it makes \<open>count - i\<close> calls of
  \<^verbatim>\<open>sem_post\<close> whatever they return, and reports success when it was successful so
  far and every one of them returned \<open>0\<close>.
\<close>

lemma post_loop_unfold:
  "post_loop obj count i success w =
     (success \<and> (\<forall>k<nat (count - i). reply w (length (trace w) + k) (Sem_post obj) = 0),
      w\<lparr>trace := trace w @
          map (\<lambda>k. (Sem_post obj, reply w (length (trace w) + k) (Sem_post obj)))
            [0..<nat (count - i)]\<rparr>)"
proof (induction obj count i success w rule: post_loop.induct)
  case (1 obj count i success w)
  show ?case
  proof (cases "i < count")
    case False
    then show ?thesis by (subst post_loop.simps) simp
  next
    case True
    then have n: "nat (count - i) = Suc (nat (count - (i + 1)))" by simp
    show ?thesis
      apply (subst post_loop.simps)
      apply (simp only: True if_True "1.IH" [OF True])
      apply (simp only: n all_less_Suc_shift upt_0_Suc_shift)
      apply (auto simp add: syscall_simps)
      done
  qed
qed

lemma Semaphore_close_null: "sem_object s = nullptr \<Longrightarrow> Semaphore_close t s w = (s, w)"
  by (simp add: Semaphore_close_def)

lemma Semaphore_close_fields:
  "sem_object s \<noteq> nullptr \<Longrightarrow> fst (Semaphore_close t s w) = Semaphore_default"
  by (simp add: Semaphore_close_def Semaphore_default_def Let_def)

lemma Shared_Memory_close_none:
  "shm_file_mapping m = no_mapping t \<Longrightarrow> Shared_Memory_close t m w = (m, w)"
  by (simp add: Shared_Memory_close_def)

lemma Shared_Memory_close_fields:
  "shm_file_mapping m \<noteq> no_mapping t \<Longrightarrow> fst (Shared_Memory_close t m w) = Shared_Memory_default t"
  by (simp add: Shared_Memory_close_def Shared_Memory_default_def Let_def)

lemma Shared_Memory_close_funpow:
  "shm_file_mapping m = no_mapping t \<Longrightarrow>
   ((\<lambda>(m, w). Shared_Memory_close t m w) ^^ k) (m, w) = (m, w)"
  by (induction k) (simp_all add: Shared_Memory_close_none)

lemma Shared_Memory_map_name_size:
  "shm_name (fst (snd (Shared_Memory_map t m w))) = shm_name m
   \<and> shm_size (fst (snd (Shared_Memory_map t m w))) = shm_size m"
  by (simp add: Shared_Memory_map_def Let_def split_beta)

lemma Shared_Memory_create_name_size:
  assumes "name \<noteq> []" and "sz \<noteq> 0"
  shows "shm_name (fst (snd (Shared_Memory_create t name sz m w))) = name
         \<and> shm_size (fst (snd (Shared_Memory_create t name sz m w))) = sz"
  using assms
  by (simp add: Shared_Memory_create_def Let_def split_beta Shared_Memory_map_name_size)


lemma upt_0_2: "[0..<2] = [0, Suc 0]"
  by (simp add: numeral_2_eq_2)

lemma reply_increment: "reply (snd (Semaphore_increment t count s w)) = reply w"
  by (simp add: Semaphore_increment_def post_loop_unfold split_beta syscall_simps)

lemma reply_wait: "reply (snd (Semaphore_wait t timeout_ms s w)) = reply w"
  by (simp add: Semaphore_wait_def split_beta syscall_simps clock_gettime_def)

lemma reply_close: "reply (snd (Semaphore_close t s w)) = reply w"
  by (simp add: Semaphore_close_def Let_def reply_increment syscall_simps)

lemma reply_create: "reply (snd (snd (Semaphore_create t name initial_count s w))) = reply w"
  by (simp add: Semaphore_create_def Let_def split_beta syscall_simps)

lemma reply_call: "reply (snd (Semaphore_call t c x)) = reply (snd x)"
  by (cases c; cases x) (simp_all add: reply_increment reply_wait reply_close reply_create)

lemma call_handle_has_name:
  "handle_has_name (fst x) \<Longrightarrow> handle_has_name (fst (Semaphore_call t c x))"
proof (cases x)
  case (Pair s w)
  assume a: "handle_has_name (fst x)"
  show ?thesis
  proof (cases c)
    case (Create name initial_count)
    with a Pair show ?thesis
      by (simp add: handle_has_name_def Semaphore_create_def Let_def split_beta)
  next
    case Close
    with a Pair show ?thesis
      by (cases "sem_object s = nullptr")
        (simp_all add: handle_has_name_def Semaphore_close_null Semaphore_close_fields
          Semaphore_default_def)
  qed (use a Pair in simp_all)
qed

lemma call_name_has_handle:
  assumes "creation_never_null (snd x)" and "name_has_handle (fst x)"
  shows "name_has_handle (fst (Semaphore_call t c x))"
proof (cases x)
  case (Pair s w)
  show ?thesis
  proof (cases c)
    case (Create name initial_count)
    with assms Pair show ?thesis
      by (simp add: name_has_handle_def creation_never_null_def Semaphore_create_def Let_def
          split_beta syscall_simps)
  next
    case Close
    with assms Pair show ?thesis
      by (cases "sem_object s = nullptr")
        (simp_all add: name_has_handle_def Semaphore_close_null Semaphore_close_fields
          Semaphore_default_def)
  qed (use assms Pair in simp_all)
qed

lemma creation_never_null_call:
  "creation_never_null (snd x) \<Longrightarrow> creation_never_null (snd (Semaphore_call t c x))"
  by (simp add: creation_never_null_def reply_call)

lemma fold_handle_has_name:
  "handle_has_name (fst x) \<Longrightarrow> handle_has_name (fst (fold (Semaphore_call t) cs x))"
  by (induction cs arbitrary: x) (simp_all add: call_handle_has_name)

lemma fold_name_has_handle:
  "creation_never_null (snd x) \<Longrightarrow> name_has_handle (fst x) \<Longrightarrow>
   name_has_handle (fst (fold (Semaphore_call t) cs x))"
  by (induction cs arbitrary: x) (simp_all add: call_name_has_handle creation_never_null_call)

text \<open>
  Every state a segment reaches from the default-constructed one has a null address
  whenever its \<^verbatim>\<open>file_mapping\<close> is the sentinel, so \<^verbatim>\<open>close\<close> leaves a null address.
\<close>

lemma create_address_has_mapping:
  "address_has_mapping t m \<Longrightarrow>
   address_has_mapping t (fst (snd (Shared_Memory_create t name sz m w)))"
  by (auto simp add: address_has_mapping_def Shared_Memory_create_def Shared_Memory_map_def
      no_mapping_def nullptr_def Let_def split_beta)

lemma close_address_null:
  "address_has_mapping t m \<Longrightarrow> shm_address (fst (Shared_Memory_close t m w)) = nullptr"
  by (cases "shm_file_mapping m = no_mapping t")
    (simp_all add: address_has_mapping_def Shared_Memory_close_none Shared_Memory_close_fields
      Shared_Memory_default_def)

lemma close_address_has_mapping:
  "address_has_mapping t m \<Longrightarrow> address_has_mapping t (fst (Shared_Memory_close t m w))"
  by (simp add: close_address_null address_has_mapping_def [of t "fst (Shared_Memory_close t m w)"])

lemma call_address_has_mapping:
  "address_has_mapping t (fst x) \<Longrightarrow> address_has_mapping t (fst (Shared_Memory_call t c x))"
  by (cases c; cases x) (simp_all add: create_address_has_mapping close_address_has_mapping)

lemma fold_address_has_mapping:
  "address_has_mapping t (fst x) \<Longrightarrow>
   address_has_mapping t (fst (fold (Shared_Memory_call t) cs x))"
  by (induction cs arbitrary: x) (simp_all add: call_address_has_mapping)

lemma calls_address_has_mapping: "address_has_mapping t (fst (Shared_Memory_calls t cs w))"
  unfolding Shared_Memory_calls_def
  by (rule fold_address_has_mapping)
    (simp add: address_has_mapping_def Shared_Memory_default_def)

text \<open>
  The arithmetic of the deadline, read in the integers: the conversions from
  \<^verbatim>\<open>unsigned int\<close>, and additions and subtractions that stay within 64 bits.
\<close>

lemma uint_ms_quotient: "uint (timeout_ms div 1000 :: 32 word) = uint timeout_ms div 1000"
  by (simp add: uint_div)

lemma uint_ms_remainder: "uint ((timeout_ms mod 1000) * 1000000 :: 32 word) = (uint timeout_ms mod 1000) * 1000000"
proof -
  have "uint timeout_ms mod 1000 < 1000" "0 \<le> uint timeout_ms mod 1000"
    by simp_all
  then have "(uint timeout_ms mod 1000) * 1000000 < 2 ^ 32" "0 \<le> (uint timeout_ms mod 1000) * 1000000"
    by simp_all
  then show ?thesis
    by (simp add: uint_word_ariths uint_mod)
qed

lemma sint_ucast_32_64: "sint (ucast (x :: 32 word) :: 64 word) = uint x"
proof -
  have "uint x < 2 ^ 32" using uint_bounded [of x] by simp
  then have "uint x < 2 ^ 63" by simp
  moreover have "(- (2 ^ 63) :: int) \<le> 0" by simp
  then have "- (2 ^ 63) \<le> uint x"
    by (rule order_trans) simp
  ultimately show ?thesis
    by (simp add: signed_ucast_eq signed_take_bit_int_eq_self)
qed

lemma sint_add_64:
  fixes a b :: "64 word"
  assumes "- (2 ^ 63) \<le> sint a + sint b" and "sint a + sint b < 2 ^ 63"
  shows "sint (a + b) = sint a + sint b"
  using assms by (simp add: sint_word_ariths signed_take_bit_int_eq_self)

lemma sint_diff_64:
  fixes a b :: "64 word"
  assumes "- (2 ^ 63) \<le> sint a - sint b" and "sint a - sint b < 2 ^ 63"
  shows "sint (a - b) = sint a - sint b"
  using assms by (simp add: sint_word_ariths signed_take_bit_int_eq_self)

lemma deadline_seconds:
  fixes S N T :: int
  assumes "0 \<le> N" and "N < 1000000000" and "0 \<le> T"
  shows "(S * 1000000000 + N + T * 1000000) div 1000000000 =
           S + T div 1000 + (if 1000000000 \<le> N + (T mod 1000) * 1000000 then 1 else 0)"
proof -
  define R where "R = N + (T mod 1000) * 1000000"
  have "T * 1000000 = T div 1000 * 1000000000 + T mod 1000 * 1000000"
    using div_mult_mod_eq [of T 1000] by linarith
  then have "S * 1000000000 + N + T * 1000000 = R + (S + T div 1000) * 1000000000"
    unfolding R_def by (simp only: distrib_right)
  then have 1: "(S * 1000000000 + N + T * 1000000) div 1000000000 = R div 1000000000 + (S + T div 1000)"
    by simp
  have "0 \<le> T mod 1000" "T mod 1000 < 1000" by simp_all
  then have "0 \<le> R" "R < 2000000000" using assms unfolding R_def by simp_all
  then have "R div 1000000000 = (if 1000000000 \<le> R then 1 else 0)"
    by (simp add: int_div_pos_eq [of R 1000000000 1 "R - 1000000000"])
  with 1 show ?thesis unfolding R_def by simp
qed


lemma wait_deadline_fields:
  assumes n0: "0 \<le> sint (tv_nsec ts)" and n1: "sint (tv_nsec ts) < 1000000000"
    and fit: "(nanoseconds ts + uint timeout_ms * 1000000) div 1000000000 < 2 ^ 63"
  shows "sint (tv_sec ts + ucast (timeout_ms div 1000)) = sint (tv_sec ts) + uint timeout_ms div 1000"
    and "sint (tv_nsec ts + ucast ((timeout_ms mod 1000) * 1000000))
           = sint (tv_nsec ts) + (uint timeout_ms mod 1000) * 1000000"
    and "nanoseconds (wait_deadline timeout_ms ts) = nanoseconds ts + uint timeout_ms * 1000000"
    and "0 \<le> sint (tv_nsec (wait_deadline timeout_ms ts))"
    and "sint (tv_nsec (wait_deadline timeout_ms ts)) < 1000000000"
proof -
  define S N T where "S = sint (tv_sec ts)" and "N = sint (tv_nsec ts)" and "T = uint timeout_ms"
  define c :: int where "c = (if 1000000000 \<le> N + (T mod 1000) * 1000000 then 1 else 0)"
  have T0: "0 \<le> T" and Tm: "0 \<le> T mod 1000" "T mod 1000 < 1000"
    unfolding T_def by simp_all
  from T0 have Td: "0 \<le> T div 1000"
    by (simp add: pos_imp_zdiv_nonneg_iff)
  have S0: "- (2 ^ 63) \<le> S"
    unfolding S_def using sint_ge [of "tv_sec ts"] by simp
  from fit have "S + T div 1000 + c < 2 ^ 63"
    unfolding nanoseconds_def c_def using deadline_seconds [of N T S] n0 n1 T0
    by (simp add: S_def N_def T_def)
  with Td have Sq: "S + T div 1000 < 2 ^ 63" and Sc: "S + T div 1000 + c < 2 ^ 63"
    unfolding c_def by (simp_all split: if_splits)
  have sec1: "sint (tv_sec ts + ucast (timeout_ms div 1000)) = S + T div 1000"
    using S0 Sq Td
    by (simp add: sint_add_64 sint_ucast_32_64 uint_ms_quotient S_def T_def)
  have R: "0 \<le> N + (T mod 1000) * 1000000" "N + (T mod 1000) * 1000000 < 2000000000"
    using n0 n1 Tm unfolding N_def by simp_all
  have nsec1: "sint (tv_nsec ts + ucast ((timeout_ms mod 1000) * 1000000))
       = N + (T mod 1000) * 1000000"
    using R by (simp add: sint_add_64 sint_ucast_32_64 uint_ms_remainder N_def T_def)
  show "sint (tv_sec ts + ucast (timeout_ms div 1000)) = sint (tv_sec ts) + uint timeout_ms div 1000"
    using sec1 by (simp add: S_def T_def)
  show "sint (tv_nsec ts + ucast ((timeout_ms mod 1000) * 1000000))
           = sint (tv_nsec ts) + (uint timeout_ms mod 1000) * 1000000"
    using nsec1 by (simp add: N_def T_def)
  have T: "T * 1000000 = T div 1000 * 1000000000 + T mod 1000 * 1000000"
    using div_mult_mod_eq [of T 1000] by linarith
  have main: "nanoseconds (wait_deadline timeout_ms ts) = nanoseconds ts + uint timeout_ms * 1000000
    \<and> 0 \<le> sint (tv_nsec (wait_deadline timeout_ms ts))
    \<and> sint (tv_nsec (wait_deadline timeout_ms ts)) < 1000000000"
  proof (cases "1000000000 \<le> N + (T mod 1000) * 1000000")
    case True
    then have c1: "c = 1" by (simp add: c_def)
    have sec2: "sint (tv_sec ts + ucast (timeout_ms div 1000) + 1) = S + T div 1000 + 1"
      using Sc S0 Td c1 by (simp add: sint_add_64 sec1)
    have nsec2: "sint (tv_nsec ts + ucast ((timeout_ms mod 1000) * 1000000) - 1000000000)
        = N + (T mod 1000) * 1000000 - 1000000000"
      using R True by (simp add: sint_diff_64 nsec1)
    from True R T show ?thesis
      by (simp add: wait_deadline_def Let_def nanoseconds_def nsec1 sec1 sec2 nsec2
          S_def [symmetric] N_def [symmetric] T_def [symmetric])
  next
    case False
    with R T show ?thesis
      by (simp add: wait_deadline_def Let_def nanoseconds_def nsec1 sec1
          S_def [symmetric] N_def [symmetric] T_def [symmetric])
  qed
  from main show "nanoseconds (wait_deadline timeout_ms ts) = nanoseconds ts + uint timeout_ms * 1000000"
    and "0 \<le> sint (tv_nsec (wait_deadline timeout_ms ts))"
    and "sint (tv_nsec (wait_deadline timeout_ms ts)) < 1000000000"
    by simp_all
qed

section \<open>Rejected arguments\<close>

text \<open>
  Claim C6. \<^verbatim>\<open>Semaphore::create\<close> with an empty name, and \<^verbatim>\<open>Shared_Memory::create\<close>
  with an empty name or with size \<open>0\<close>, return failure; the environment is returned as
  it was, so no call into the operating system has been made, and so is the instance,
  whatever state it was in.
\<close>

theorem create_rejects_invalid_arguments:
  "Semaphore_create t [] initial_count s w = (False, s, w)
   \<and> Shared_Memory_create t [] sz m w = (False, m, w)
   \<and> Shared_Memory_create t name 0 m w = (False, m, w)"
  by (simp add: Semaphore_create_def Shared_Memory_create_def)

section \<open>Releasing units\<close>

text \<open>
  Claim C9. On the descriptor-style target, \<^verbatim>\<open>increment(count)\<close> with \<open>count \<le> 0\<close> on
  a semaphore whose handle is not null returns success and makes no call at all: the
  loop body is never entered.
\<close>

theorem increment_nonpositive_count:
  assumes "\<not> win32 t" and "sem_object s \<noteq> nullptr" and "count \<le> 0"
  shows "Semaphore_increment t count s w = (True, w)"
  using assms by (simp add: Semaphore_increment_def post_loop.simps [of _ count 0])

theorem increment_nonpositive_count_witness:
  "Semaphore_increment linux_target (- 3) \<lparr>sem_name = ''/s'', sem_object = 4096\<rparr> (scripted [])
     = (True, scripted [])
   \<and> Semaphore_increment linux_target 0 \<lparr>sem_name = ''/s'', sem_object = 4096\<rparr> (scripted [])
     = (True, scripted [])"
  using increment_nonpositive_count [of linux_target "\<lparr>sem_name = ''/s'', sem_object = 4096\<rparr>" "- 3" "scripted []"]
    increment_nonpositive_count [of linux_target "\<lparr>sem_name = ''/s'', sem_object = 4096\<rparr>" 0 "scripted []"]
  by (simp add: linux_target_def nullptr_def)

text \<open>
  Claim C7. On the descriptor-style target, \<^verbatim>\<open>increment(count)\<close> on a semaphore whose
  handle is not null makes exactly \<open>count\<close> calls of \<^verbatim>\<open>sem_post\<close> and nothing else,
  whatever any of them returns; it reports success exactly when every one of them
  returned \<open>0\<close>. A failing release therefore neither stops the later releases nor
  undoes the earlier ones.
\<close>

theorem increment_posix_releases:
  assumes "\<not> win32 t" and "sem_object s \<noteq> nullptr"
  shows "Semaphore_increment t count s w =
           ((\<forall>k<nat count. reply w (length (trace w) + k) (Sem_post (sem_object s)) = 0),
            w\<lparr>trace := trace w @
                map (\<lambda>k. (Sem_post (sem_object s),
                           reply w (length (trace w) + k) (Sem_post (sem_object s))))
                  [0..<nat count]\<rparr>)"
  using assms by (simp add: Semaphore_increment_def post_loop_unfold)

text \<open>Three units asked for, the second release fails: all three are issued.\<close>

theorem increment_posix_releases_witness:
  "Semaphore_increment linux_target 3 \<lparr>sem_name = ''/s'', sem_object = 4096\<rparr> (scripted [0, - 1, 0])
     = (False, (scripted [0, - 1, 0])
          \<lparr>trace := [(Sem_post 4096, 0), (Sem_post 4096, - 1), (Sem_post 4096, 0)]\<rparr>)"
  using increment_posix_releases [of linux_target "\<lparr>sem_name = ''/s'', sem_object = 4096\<rparr>" 3 "scripted [0, - 1, 0]"]
  by (simp add: linux_target_def nullptr_def scripted_def numeral_3_eq_3 all_less_Suc_shift upt_0_Suc_shift del: upt_Suc)

section \<open>Closing a semaphore\<close>

text \<open>
  Claim C4. \<^verbatim>\<open>Semaphore::close\<close> on an instance whose handle is null changes nothing
  and makes no call. Otherwise the calls it makes are, in this order: the release of
  \<open>1024\<close> units (one \<^verbatim>\<open>ReleaseSemaphore\<close> of 1024 on the handle-style target, 1024
  calls of \<^verbatim>\<open>sem_post\<close> on the descriptor-style one), the release of the handle, and
  on the descriptor-style target the removal of the name (which an open instance has);
  the instance it leaves has an empty name and a null handle, whatever the operating
  system returned to any of these calls.
\<close>

theorem close_semaphore_order:
  "(sem_object s = nullptr \<longrightarrow> Semaphore_close t s w = (s, w))
   \<and> (sem_object s \<noteq> nullptr \<longrightarrow>
        fst (Semaphore_close t s w) = \<lparr>sem_name = [], sem_object = nullptr\<rparr>
        \<and> map fst (trace (snd (Semaphore_close t s w))) =
            map fst (trace w) @
            (if win32 t then
               [ReleaseSemaphore (sem_object s) 1024, CloseHandle (sem_object s)]
             else
               replicate 1024 (Sem_post (sem_object s)) @ [Sem_close (sem_object s)] @
               (if sem_name s \<noteq> [] then [Sem_unlink (sem_name s)] else [])))"
  by (simp add: Semaphore_close_def Semaphore_increment_def post_loop_unfold max_count_def
      syscall_simps Let_def split_beta map_fst_const del: upt_Suc)

theorem close_semaphore_order_witness:
  "Semaphore_close linux_target Semaphore_default (scripted []) = (Semaphore_default, scripted [])
   \<and> fst (Semaphore_close linux_target \<lparr>sem_name = ''/s'', sem_object = 4096\<rparr> (scripted []))
       = Semaphore_default
   \<and> map fst (trace (snd (Semaphore_close linux_target \<lparr>sem_name = ''/s'', sem_object = 4096\<rparr> (scripted []))))
       = replicate 1024 (Sem_post 4096) @ [Sem_close 4096, Sem_unlink ''/s'']
   \<and> map fst (trace (snd (Semaphore_close windows_target \<lparr>sem_name = ''s'', sem_object = 4096\<rparr> (scripted []))))
       = [ReleaseSemaphore 4096 1024, CloseHandle 4096]"
  using close_semaphore_order [of Semaphore_default linux_target "scripted []"]
    close_semaphore_order [of "\<lparr>sem_name = ''/s'', sem_object = 4096\<rparr>" linux_target "scripted []"]
    close_semaphore_order [of "\<lparr>sem_name = ''s'', sem_object = 4096\<rparr>" windows_target "scripted []"]
  by (simp add: linux_target_def windows_target_def Semaphore_default_def nullptr_def scripted_def)

section \<open>Closing twice, and closing after a failed create\<close>

text \<open>
  Claim C10. \<^verbatim>\<open>Shared_Memory::close\<close> on an instance whose \<^verbatim>\<open>file_mapping\<close> is the
  invalid sentinel returns at once: the instance, with its name and size, and the
  environment are unchanged. So when a failed \<^verbatim>\<open>create\<close> (with a non-empty name and a
  non-zero size) leaves the sentinel in \<^verbatim>\<open>file_mapping\<close>, the name and size it leaves
  are the arguments of that call, and no number of \<^verbatim>\<open>close\<close> calls resets them.
\<close>

theorem close_keeps_stale_fields:
  "(shm_file_mapping m = no_mapping t \<longrightarrow> Shared_Memory_close t m w = (m, w))
   \<and> (Shared_Memory_create t name sz m0 w0 = (False, m, w) \<and> name \<noteq> [] \<and> sz \<noteq> 0
        \<and> shm_file_mapping m = no_mapping t \<longrightarrow>
        (\<forall>k. ((\<lambda>(m, w). Shared_Memory_close t m w) ^^ k) (m, w) = (m, w))
        \<and> shm_name m = name \<and> shm_size m = sz)"
proof (intro conjI impI)
  assume "shm_file_mapping m = no_mapping t"
  then show "Shared_Memory_close t m w = (m, w)" by (rule Shared_Memory_close_none)
next
  assume a: "Shared_Memory_create t name sz m0 w0 = (False, m, w) \<and> name \<noteq> [] \<and> sz \<noteq> 0
        \<and> shm_file_mapping m = no_mapping t"
  then show "\<forall>k. ((\<lambda>(m, w). Shared_Memory_close t m w) ^^ k) (m, w) = (m, w)"
    by (simp add: Shared_Memory_close_funpow)
  from a have "m = fst (snd (Shared_Memory_create t name sz m0 w0))" by simp
  with a Shared_Memory_create_name_size [of name sz t m0 w0]
  show "shm_name m = name" and "shm_size m = sz" by simp_all
qed

text \<open>
  \<^verbatim>\<open>shm_open\<close> fails on a fresh instance; the name and size stay through one and
  through two calls of \<^verbatim>\<open>close\<close>.
\<close>

theorem close_keeps_stale_fields_witness:
  "Shared_Memory_create linux_target ''/m'' 4096 (Shared_Memory_default linux_target) (scripted [- 1])
     = (False,
        \<lparr>shm_name = ''/m'', shm_size = 4096, shm_address = 0, shm_file_mapping = - 1\<rparr>,
        (scripted [- 1])\<lparr>trace := [(Shm_open ''/m'', - 1)]\<rparr>)
   \<and> Shared_Memory_close linux_target
        \<lparr>shm_name = ''/m'', shm_size = 4096, shm_address = 0, shm_file_mapping = - 1\<rparr>
        ((scripted [- 1])\<lparr>trace := [(Shm_open ''/m'', - 1)]\<rparr>)
     = (\<lparr>shm_name = ''/m'', shm_size = 4096, shm_address = 0, shm_file_mapping = - 1\<rparr>,
        (scripted [- 1])\<lparr>trace := [(Shm_open ''/m'', - 1)]\<rparr>)
   \<and> ((\<lambda>(m, w). Shared_Memory_close linux_target m w) ^^ 2)
        (\<lparr>shm_name = ''/m'', shm_size = 4096, shm_address = 0, shm_file_mapping = - 1\<rparr>,
         (scripted [- 1])\<lparr>trace := [(Shm_open ''/m'', - 1)]\<rparr>)
     = (\<lparr>shm_name = ''/m'', shm_size = 4096, shm_address = 0, shm_file_mapping = - 1\<rparr>,
        (scripted [- 1])\<lparr>trace := [(Shm_open ''/m'', - 1)]\<rparr>)"
proof -
  let ?m = "\<lparr>shm_name = ''/m'', shm_size = 4096, shm_address = 0, shm_file_mapping = - 1\<rparr>"
  let ?w = "(scripted [- 1])\<lparr>trace := [(Shm_open ''/m'', - 1)]\<rparr>"
  have c: "Shared_Memory_create linux_target ''/m'' 4096 (Shared_Memory_default linux_target)
             (scripted [- 1]) = (False, ?m, ?w)"
    by (simp add: Shared_Memory_create_def Shared_Memory_default_def linux_target_def
        no_mapping_def nullptr_def scripted_def syscall_def Let_def)
  have h: "shm_file_mapping ?m = no_mapping linux_target"
    by (simp add: no_mapping_def linux_target_def)
  have n: "''/m'' \<noteq> []" and z: "(4096 :: 64 word) \<noteq> 0"
    by simp_all
  note inst = close_keeps_stale_fields [of ?m linux_target ?w "''/m''" 4096
      "Shared_Memory_default linux_target" "scripted [- 1]"]
  from inst h have 1: "Shared_Memory_close linux_target ?m ?w = (?m, ?w)"
    by blast
  from inst c h n z
  have "\<forall>k. ((\<lambda>(m, w). Shared_Memory_close linux_target m w) ^^ k) (?m, ?w) = (?m, ?w)"
    by blast
  then have 2: "((\<lambda>(m, w). Shared_Memory_close linux_target m w) ^^ 2) (?m, ?w) = (?m, ?w)"
    by (rule spec)
  from c 1 2 show ?thesis by blast
qed

text \<open>
  Claim C5, as amended. For both components \<^verbatim>\<open>close\<close> is idempotent from any state:
  a second call returns the instance and the environment of the first, so it makes no
  call into the operating system. After \<^verbatim>\<open>close\<close> the handle (\<^verbatim>\<open>object\<close>,
  \<^verbatim>\<open>file_mapping\<close>) is the Unopened sentinel, and so is the \<^verbatim>\<open>address\<close> of a segment
  in every state that \<^verbatim>\<open>create\<close> and \<^verbatim>\<open>close\<close> calls reach from a default-constructed
  instance. The name and the size are reset when the handle was not the sentinel
  before the call; when it was, \<^verbatim>\<open>close\<close> leaves the instance as it found it, with
  the name and size a failed \<^verbatim>\<open>create\<close> may have left.
\<close>

theorem close_idempotent:
  "Semaphore_close t (fst (Semaphore_close t s w)) (snd (Semaphore_close t s w)) = Semaphore_close t s w
   \<and> sem_object (fst (Semaphore_close t s w)) = nullptr
   \<and> (sem_object s \<noteq> nullptr \<longrightarrow> fst (Semaphore_close t s w) = Semaphore_default)
   \<and> (sem_object s = nullptr \<longrightarrow> Semaphore_close t s w = (s, w))
   \<and> Shared_Memory_close t (fst (Shared_Memory_close t m w)) (snd (Shared_Memory_close t m w))
       = Shared_Memory_close t m w
   \<and> shm_file_mapping (fst (Shared_Memory_close t m w)) = no_mapping t
   \<and> (shm_file_mapping m \<noteq> no_mapping t \<longrightarrow> fst (Shared_Memory_close t m w) = Shared_Memory_default t)
   \<and> (shm_file_mapping m = no_mapping t \<longrightarrow> Shared_Memory_close t m w = (m, w))
   \<and> shm_address (fst (Shared_Memory_close t (fst (Shared_Memory_calls t cs v))
                          (snd (Shared_Memory_calls t cs v)))) = nullptr"
proof -
  have s1: "sem_object (fst (Semaphore_close t s w)) = nullptr"
    by (cases "sem_object s = nullptr")
      (simp_all add: Semaphore_close_null Semaphore_close_fields Semaphore_default_def)
  have m1: "shm_file_mapping (fst (Shared_Memory_close t m w)) = no_mapping t"
    by (cases "shm_file_mapping m = no_mapping t")
      (simp_all add: Shared_Memory_close_none Shared_Memory_close_fields Shared_Memory_default_def)
  have a1: "shm_address (fst (Shared_Memory_close t (fst (Shared_Memory_calls t cs v))
                          (snd (Shared_Memory_calls t cs v)))) = nullptr"
    by (rule close_address_null) (rule calls_address_has_mapping)
  show ?thesis
    using s1 m1 a1
    by (simp add: Semaphore_close_null Semaphore_close_fields Shared_Memory_close_none
        Shared_Memory_close_fields)
qed

theorem close_idempotent_witness:
  "fst (Semaphore_close linux_target \<lparr>sem_name = ''/s'', sem_object = 4096\<rparr> (scripted []))
     = Semaphore_default
   \<and> Semaphore_close linux_target Semaphore_default (scripted []) = (Semaphore_default, scripted [])
   \<and> Shared_Memory_close linux_target
        \<lparr>shm_name = ''/m'', shm_size = 4096, shm_address = 8192, shm_file_mapping = 3\<rparr> (scripted [])
     = (Shared_Memory_default linux_target,
        (scripted [])\<lparr>trace := [(Munmap 8192 4096, 0), (Fd_close 3, 0), (Shm_unlink ''/m'', 0)]\<rparr>)
   \<and> Shared_Memory_close linux_target (Shared_Memory_default linux_target)
        ((scripted [])\<lparr>trace := [(Munmap 8192 4096, 0), (Fd_close 3, 0), (Shm_unlink ''/m'', 0)]\<rparr>)
     = (Shared_Memory_default linux_target,
        (scripted [])\<lparr>trace := [(Munmap 8192 4096, 0), (Fd_close 3, 0), (Shm_unlink ''/m'', 0)]\<rparr>)
   \<and> Shared_Memory_calls linux_target [Create_segment ''/m'' 4096, Create_segment ''/n'' 64]
        (scripted [3, 0, 8192, - 1])
     = (\<lparr>shm_name = ''/n'', shm_size = 64, shm_address = 8192, shm_file_mapping = 3\<rparr>,
        (scripted [3, 0, 8192, - 1])
          \<lparr>trace := [(Shm_open ''/m'', 3), (Ftruncate 3 4096, 0), (Mmap 4096 3, 8192),
                      (Shm_open ''/n'', - 1)]\<rparr>)
   \<and> shm_address (fst (Shared_Memory_close linux_target
        \<lparr>shm_name = ''/n'', shm_size = 64, shm_address = 8192, shm_file_mapping = 3\<rparr>
        ((scripted [3, 0, 8192, - 1])
          \<lparr>trace := [(Shm_open ''/m'', 3), (Ftruncate 3 4096, 0), (Mmap 4096 3, 8192),
                      (Shm_open ''/n'', - 1)]\<rparr>))) = nullptr"
proof -
  let ?s = "\<lparr>sem_name = ''/s'', sem_object = 4096\<rparr>"
  let ?m = "\<lparr>shm_name = ''/m'', shm_size = 4096, shm_address = 8192, shm_file_mapping = 3\<rparr>"
  let ?w = "(scripted [])\<lparr>trace := [(Munmap 8192 4096, 0), (Fd_close 3, 0), (Shm_unlink ''/m'', 0)]\<rparr>"
  let ?cs = "[Create_segment ''/m'' 4096, Create_segment ''/n'' 64]"
  let ?v = "scripted [3, 0, 8192, - 1]"
  let ?n = "\<lparr>shm_name = ''/n'', shm_size = 64, shm_address = 8192, shm_file_mapping = 3\<rparr>"
  let ?v' = "?v\<lparr>trace := [(Shm_open ''/m'', 3), (Ftruncate 3 4096, 0), (Mmap 4096 3, 8192),
                      (Shm_open ''/n'', - 1)]\<rparr>"
  have c: "Shared_Memory_close linux_target ?m (scripted []) = (Shared_Memory_default linux_target, ?w)"
    by (simp add: Shared_Memory_close_def Shared_Memory_default_def linux_target_def
        no_mapping_def nullptr_def scripted_def syscall_def Let_def)
  have r: "Shared_Memory_calls linux_target ?cs ?v = (?n, ?v')"
    by (simp add: Shared_Memory_calls_def Shared_Memory_create_def Shared_Memory_map_def
        Shared_Memory_default_def linux_target_def no_mapping_def nullptr_def scripted_def
        syscall_def Let_def)
  have h1: "sem_object ?s \<noteq> nullptr" and h2: "sem_object Semaphore_default = nullptr"
    by (simp_all add: nullptr_def Semaphore_default_def)
  note a = close_idempotent [of linux_target ?s "scripted []" ?m ?cs ?v]
  note b = close_idempotent [of linux_target Semaphore_default "scripted []" ?m ?cs ?v]
  from a h1 have 1: "fst (Semaphore_close linux_target ?s (scripted [])) = Semaphore_default"
    by blast
  from b h2 have 2: "Semaphore_close linux_target Semaphore_default (scripted [])
      = (Semaphore_default, scripted [])"
    by blast
  from a have "Shared_Memory_close linux_target
       (fst (Shared_Memory_close linux_target ?m (scripted [])))
       (snd (Shared_Memory_close linux_target ?m (scripted [])))
     = Shared_Memory_close linux_target ?m (scripted [])"
    by blast
  with c have 3: "Shared_Memory_close linux_target (Shared_Memory_default linux_target) ?w
     = (Shared_Memory_default linux_target, ?w)"
    by simp
  from a have "shm_address (fst (Shared_Memory_close linux_target
       (fst (Shared_Memory_calls linux_target ?cs ?v))
       (snd (Shared_Memory_calls linux_target ?cs ?v)))) = nullptr"
    by blast
  with r have 4: "shm_address (fst (Shared_Memory_close linux_target ?n ?v')) = nullptr"
    by simp
  from 1 2 c 3 r 4 show ?thesis by blast
qed

text \<open>
  The claim as stated fails for the name and the size: on the handle-style target a
  \<^verbatim>\<open>create\<close> that the operating system refuses leaves the name (and the size) set and
  the handle null, and \<^verbatim>\<open>close\<close> then returns without touching them.
\<close>

theorem close_stale_name_counterexample:
  "Semaphore_create windows_target ''s'' 0 Semaphore_default (scripted [0])
     = (False, \<lparr>sem_name = ''s'', sem_object = nullptr\<rparr>,
        (scripted [0])\<lparr>trace := [(CreateSemaphoreA 0 ''s'', 0)]\<rparr>)
   \<and> Semaphore_close windows_target \<lparr>sem_name = ''s'', sem_object = nullptr\<rparr>
        ((scripted [0])\<lparr>trace := [(CreateSemaphoreA 0 ''s'', 0)]\<rparr>)
     = (\<lparr>sem_name = ''s'', sem_object = nullptr\<rparr>,
        (scripted [0])\<lparr>trace := [(CreateSemaphoreA 0 ''s'', 0)]\<rparr>)
   \<and> sem_name \<lparr>sem_name = ''s'', sem_object = nullptr\<rparr> \<noteq> sem_name Semaphore_default
   \<and> Shared_Memory_create windows_target ''m'' 4096 (Shared_Memory_default windows_target) (scripted [0])
     = (False,
        \<lparr>shm_name = ''m'', shm_size = 4096, shm_address = nullptr, shm_file_mapping = nullptr\<rparr>,
        (scripted [0])\<lparr>trace := [(CreateFileMappingA 4096 ''m'', 0)]\<rparr>)
   \<and> Shared_Memory_close windows_target
        \<lparr>shm_name = ''m'', shm_size = 4096, shm_address = nullptr, shm_file_mapping = nullptr\<rparr>
        ((scripted [0])\<lparr>trace := [(CreateFileMappingA 4096 ''m'', 0)]\<rparr>)
     = (\<lparr>shm_name = ''m'', shm_size = 4096, shm_address = nullptr, shm_file_mapping = nullptr\<rparr>,
        (scripted [0])\<lparr>trace := [(CreateFileMappingA 4096 ''m'', 0)]\<rparr>)
   \<and> shm_size \<lparr>shm_name = ''m'', shm_size = 4096, shm_address = nullptr, shm_file_mapping = nullptr\<rparr>
     \<noteq> shm_size (Shared_Memory_default windows_target)"
  by (simp add: Semaphore_create_def Semaphore_close_def Semaphore_default_def
      Shared_Memory_create_def Shared_Memory_map_def Shared_Memory_close_def
      Shared_Memory_default_def no_mapping_def windows_target_def
      nullptr_def scripted_def syscall_def Let_def)

section \<open>A failing mapping step\<close>

text \<open>
  Claim C3, as amended. When, during \<^verbatim>\<open>Shared_Memory::create\<close>, the mapping call of
  the operating system fails (\<^verbatim>\<open>mmap\<close> returns \<^verbatim>\<open>MAP_FAILED\<close>, \<^verbatim>\<open>MapViewOfFile\<close>
  returns null), the last call made is the release of the backing handle, \<^verbatim>\<open>create\<close>
  returns failure, and \<^verbatim>\<open>file_mapping\<close> and \<^verbatim>\<open>address\<close> hold their Unopened
  sentinels; \<^verbatim>\<open>name\<close> and \<^verbatim>\<open>size\<close> hold the arguments of the call, not the Unopened
  values. On the descriptor-style target the descriptor is taken to be different from
  \<open>0\<close>, the value the first guard of \<^verbatim>\<open>map\<close> tests for. On the handle-style target
  the map step also returns null when \<^verbatim>\<open>CreateFileMappingA\<close> returned no handle; then
  there is nothing to release, and the fields are left in the same way.
\<close>

theorem failed_mapping_releases_handle:
  "(\<not> win32 t \<and> name \<noteq> [] \<and> sz \<noteq> 0
      \<and> reply w (length (trace w)) (Shm_open name) = fd \<and> fd \<noteq> - 1 \<and> fd \<noteq> nullptr
      \<and> reply w (length (trace w) + 1) (Ftruncate fd sz) = r \<and> r \<noteq> - 1
      \<and> reply w (length (trace w) + 2) (Mmap sz fd) = MAP_FAILED t \<longrightarrow>
    Shared_Memory_create t name sz m w =
      (False,
       m\<lparr>shm_name := name, shm_size := sz, shm_address := nullptr, shm_file_mapping := - 1\<rparr>,
       w\<lparr>trace := trace w @
            [(Shm_open name, fd), (Ftruncate fd sz, r), (Mmap sz fd, MAP_FAILED t),
             (Fd_close fd, reply w (length (trace w) + 3) (Fd_close fd))]\<rparr>))
   \<and> (win32 t \<and> name \<noteq> [] \<and> sz \<noteq> 0
      \<and> reply w (length (trace w)) (CreateFileMappingA sz name) = h \<and> h \<noteq> nullptr
      \<and> reply w (length (trace w) + 1) (MapViewOfFile h sz) = nullptr \<longrightarrow>
    Shared_Memory_create t name sz m w =
      (False,
       m\<lparr>shm_name := name, shm_size := sz, shm_address := nullptr, shm_file_mapping := nullptr\<rparr>,
       w\<lparr>trace := trace w @
            [(CreateFileMappingA sz name, h), (MapViewOfFile h sz, nullptr),
             (CloseHandle h, reply w (length (trace w) + 2) (CloseHandle h))]\<rparr>))
   \<and> (win32 t \<and> name \<noteq> [] \<and> sz \<noteq> 0
      \<and> reply w (length (trace w)) (CreateFileMappingA sz name) = nullptr \<longrightarrow>
    Shared_Memory_create t name sz m w =
      (False,
       m\<lparr>shm_name := name, shm_size := sz, shm_address := nullptr, shm_file_mapping := nullptr\<rparr>,
       w\<lparr>trace := trace w @ [(CreateFileMappingA sz name, nullptr)]\<rparr>))"
  by (auto simp add: Shared_Memory_create_def Shared_Memory_map_def syscall_def Let_def
      numeral_3_eq_3 numeral_2_eq_2)

theorem failed_mapping_releases_handle_witness:
  "Shared_Memory_create linux_target ''/m'' 4096 (Shared_Memory_default linux_target)
       (scripted [3, 0, - 1, 0])
     = (False,
        \<lparr>shm_name = ''/m'', shm_size = 4096, shm_address = 0, shm_file_mapping = - 1\<rparr>,
        (scripted [3, 0, - 1, 0])
          \<lparr>trace := [(Shm_open ''/m'', 3), (Ftruncate 3 4096, 0), (Mmap 4096 3, - 1), (Fd_close 3, 0)]\<rparr>)
   \<and> Shared_Memory_create windows_target ''m'' 4096 (Shared_Memory_default windows_target)
       (scripted [256, 0, 1])
     = (False,
        \<lparr>shm_name = ''m'', shm_size = 4096, shm_address = 0, shm_file_mapping = 0\<rparr>,
        (scripted [256, 0, 1])
          \<lparr>trace := [(CreateFileMappingA 4096 ''m'', 256), (MapViewOfFile 256 4096, 0), (CloseHandle 256, 1)]\<rparr>)
   \<and> Shared_Memory_create windows_target ''m'' 4096 (Shared_Memory_default windows_target)
       (scripted [0])
     = (False,
        \<lparr>shm_name = ''m'', shm_size = 4096, shm_address = 0, shm_file_mapping = 0\<rparr>,
        (scripted [0])\<lparr>trace := [(CreateFileMappingA 4096 ''m'', 0)]\<rparr>)"
  using failed_mapping_releases_handle [of linux_target "''/m''" 4096 "scripted [3, 0, - 1, 0]" 3 0
      "Shared_Memory_default linux_target"]
    failed_mapping_releases_handle [of windows_target "''m''" 4096 "scripted [256, 0, 1]" _ _
      "Shared_Memory_default windows_target" 256]
    failed_mapping_releases_handle [of windows_target "''m''" 4096 "scripted [0]" _ _
      "Shared_Memory_default windows_target"]
  by (simp add: linux_target_def windows_target_def scripted_def nullptr_def
      Shared_Memory_default_def no_mapping_def)

text \<open>
  The claim as stated fails for the name and the size: \<^verbatim>\<open>mmap\<close> fails on descriptor
  \<open>3\<close>, the map step returns null, and the instance \<^verbatim>\<open>create\<close> leaves is not the
  default-constructed one.
\<close>

theorem failed_mapping_counterexample:
  "fst (Shared_Memory_map linux_target
        \<lparr>shm_name = ''/m'', shm_size = 4096, shm_address = 0, shm_file_mapping = 3\<rparr>
        ((scripted [3, 0, - 1, 0])\<lparr>trace := [(Shm_open ''/m'', 3), (Ftruncate 3 4096, 0)]\<rparr>))
     = nullptr
   \<and> fst (snd (Shared_Memory_create linux_target ''/m'' 4096 (Shared_Memory_default linux_target)
       (scripted [3, 0, - 1, 0])))
     = \<lparr>shm_name = ''/m'', shm_size = 4096, shm_address = nullptr, shm_file_mapping = - 1\<rparr>
   \<and> \<lparr>shm_name = ''/m'', shm_size = 4096, shm_address = nullptr, shm_file_mapping = - 1\<rparr>
     \<noteq> Shared_Memory_default linux_target"
  by (simp add: Shared_Memory_create_def Shared_Memory_map_def Shared_Memory_default_def
      linux_target_def no_mapping_def nullptr_def scripted_def syscall_def Let_def)

section \<open>A failing create\<close>




section \<open>The handle and the name of a semaphore\<close>

text \<open>
  Claim C2, as amended. In every state that a sequence of \<^verbatim>\<open>create\<close>, \<^verbatim>\<open>wait\<close>,
  \<^verbatim>\<open>increment\<close> and \<^verbatim>\<open>close\<close> calls reaches from a default-constructed semaphore, a
  non-null handle comes with a non-empty name. The converse, and with it the
  equivalence, holds in an environment where creating a semaphore never returns null; a
  \<^verbatim>\<open>create\<close> that fails in the operating system sets the name and leaves no valid
  handle.
\<close>

theorem valid_handle_has_name:
  "(sem_object (fst (Semaphore_calls t cs w)) \<noteq> nullptr \<longrightarrow>
      sem_name (fst (Semaphore_calls t cs w)) \<noteq> [])
   \<and> (creation_never_null w \<longrightarrow>
      (sem_object (fst (Semaphore_calls t cs w)) \<noteq> nullptr \<longleftrightarrow>
       sem_name (fst (Semaphore_calls t cs w)) \<noteq> []))"
proof -
  have 0: "handle_has_name (fst (Semaphore_default, w))" "name_has_handle (fst (Semaphore_default, w))"
    by (simp_all add: handle_has_name_def name_has_handle_def Semaphore_default_def)
  from 0(1) have 1: "handle_has_name (fst (Semaphore_calls t cs w))"
    unfolding Semaphore_calls_def by (rule fold_handle_has_name)
  have 2: "name_has_handle (fst (Semaphore_calls t cs w))" if "creation_never_null w"
    unfolding Semaphore_calls_def using that 0(2) by (intro fold_name_has_handle) simp_all
  from 1 2 show ?thesis
    by (auto simp add: handle_has_name_def name_has_handle_def)
qed

theorem valid_handle_has_name_witness:
  "Semaphore_calls linux_target [Create ''/s'' 1, Wait INFINITE, Increment 2] (granting 4096)
     = (\<lparr>sem_name = ''/s'', sem_object = 4096\<rparr>,
        (granting 4096)
          \<lparr>trace := [(Sem_open ''/s'' 1, 4096), (Sem_wait 4096, 0),
                      (Sem_post 4096, 0), (Sem_post 4096, 0)]\<rparr>)
   \<and> creation_never_null (granting 4096)
   \<and> sem_object (fst (Semaphore_calls linux_target [Create ''/s'' 1, Wait INFINITE, Increment 2] (granting 4096))) \<noteq> nullptr
   \<and> sem_name (fst (Semaphore_calls linux_target [Create ''/s'' 1, Wait INFINITE, Increment 2] (granting 4096))) \<noteq> []"
proof -
  let ?cs = "[Create ''/s'' 1, Wait INFINITE, Increment 2]"
  have r: "Semaphore_calls linux_target ?cs (granting 4096)
     = (\<lparr>sem_name = ''/s'', sem_object = 4096\<rparr>,
        (granting 4096)
          \<lparr>trace := [(Sem_open ''/s'' 1, 4096), (Sem_wait 4096, 0),
                      (Sem_post 4096, 0), (Sem_post 4096, 0)]\<rparr>)"
    by (simp add: Semaphore_calls_def Semaphore_create_def Semaphore_wait_def
        Semaphore_increment_def post_loop_unfold Semaphore_default_def
        linux_target_def nullptr_def granting_def syscall_def Let_def upt_0_2)
  have g: "creation_never_null (granting 4096)"
    by (simp add: creation_never_null_def granting_def nullptr_def)
  from r have o: "sem_object (fst (Semaphore_calls linux_target ?cs (granting 4096))) \<noteq> nullptr"
    by (simp add: nullptr_def)
  with g valid_handle_has_name [of linux_target ?cs "granting 4096"]
  have "sem_name (fst (Semaphore_calls linux_target ?cs (granting 4096))) \<noteq> []"
    by blast
  with r g o show ?thesis by blast
qed

text \<open>
  The equivalence fails after one failing \<^verbatim>\<open>create\<close>: the name is set, the handle is
  null.
\<close>

theorem valid_handle_iff_name_counterexample:
  "Semaphore_calls windows_target [Create ''s'' 0] (scripted [0])
     = (\<lparr>sem_name = ''s'', sem_object = nullptr\<rparr>,
        (scripted [0])\<lparr>trace := [(CreateSemaphoreA 0 ''s'', 0)]\<rparr>)
   \<and> sem_name \<lparr>sem_name = ''s'', sem_object = nullptr\<rparr> \<noteq> []
   \<and> sem_object \<lparr>sem_name = ''s'', sem_object = nullptr\<rparr> = nullptr"
  by (simp add: Semaphore_calls_def Semaphore_create_def Semaphore_default_def windows_target_def
      nullptr_def scripted_def syscall_def Let_def)

section \<open>The deadline of a timed wait\<close>

text \<open>
  Claim C8, as amended. On the descriptor-style target, for a semaphore whose handle is
  not null, a timeout other than \<^verbatim>\<open>INFINITE\<close> and a clock reading \<open>ts\<close> with
  \<^verbatim>\<open>tv_nsec\<close> in \<open>[0, 10\<^sup>9)\<close>, \<^verbatim>\<open>wait\<close> reads the clock and then calls
  \<^verbatim>\<open>sem_timedwait\<close> with the deadline \<open>wait_deadline timeout_ms ts\<close>. Provided the
  exact deadline, in whole seconds, is below \<open>2\<^sup>6\<^sup>3\<close>, that deadline denotes the
  clock reading plus exactly \<open>timeout_ms\<close> milliseconds, its \<^verbatim>\<open>tv_nsec\<close> is in
  \<open>[0, 10\<^sup>9)\<close>, and the product and the sums on the way have their integer values:
  nothing wraps. (The model wraps where C++ leaves signed overflow undefined.)
\<close>

theorem wait_deadline_exact:
  assumes "\<not> win32 t" and "sem_object s \<noteq> nullptr" and "timeout_ms \<noteq> INFINITE"
    and "clock w (length (trace w)) = ts"
    and "0 \<le> sint (tv_nsec ts)" and "sint (tv_nsec ts) < 1000000000"
    and "(nanoseconds ts + uint timeout_ms * 1000000) div 1000000000 < 2 ^ 63"
  shows "map fst (trace (snd (Semaphore_wait t timeout_ms s w))) =
           map fst (trace w) @
           [Clock_gettime, Sem_timedwait (sem_object s) (wait_deadline timeout_ms ts)]
         \<and> nanoseconds (wait_deadline timeout_ms ts) = nanoseconds ts + uint timeout_ms * 1000000
         \<and> 0 \<le> sint (tv_nsec (wait_deadline timeout_ms ts))
         \<and> sint (tv_nsec (wait_deadline timeout_ms ts)) < 1000000000
         \<and> uint ((timeout_ms mod 1000) * 1000000) = (uint timeout_ms mod 1000) * 1000000
         \<and> sint (tv_sec ts + ucast (timeout_ms div 1000))
             = sint (tv_sec ts) + uint timeout_ms div 1000
         \<and> sint (tv_nsec ts + ucast ((timeout_ms mod 1000) * 1000000))
             = sint (tv_nsec ts) + (uint timeout_ms mod 1000) * 1000000"
proof -
  from assms(1-4)
  have "map fst (trace (snd (Semaphore_wait t timeout_ms s w))) =
           map fst (trace w) @
           [Clock_gettime, Sem_timedwait (sem_object s) (wait_deadline timeout_ms ts)]"
    by (simp add: Semaphore_wait_def clock_gettime_def syscall_def Let_def)
  with wait_deadline_fields [OF assms(5-7)] uint_ms_remainder [of timeout_ms]
  show ?thesis by simp
qed

text \<open>A timeout of 1500 ms at 0.75 s past the second: the nanoseconds carry.\<close>

theorem wait_deadline_exact_witness:
  "wait_deadline 1500 \<lparr>tv_sec = 1700000000, tv_nsec = 750000000\<rparr>
     = \<lparr>tv_sec = 1700000002, tv_nsec = 250000000\<rparr>
   \<and> nanoseconds (wait_deadline 1500 \<lparr>tv_sec = 1700000000, tv_nsec = 750000000\<rparr>)
     = nanoseconds \<lparr>tv_sec = 1700000000, tv_nsec = 750000000\<rparr> + 1500 * 1000000
   \<and> map fst (trace (snd (Semaphore_wait linux_target 1500 \<lparr>sem_name = ''/s'', sem_object = 4096\<rparr> (scripted []))))
     = [Clock_gettime,
        Sem_timedwait 4096 (wait_deadline 1500 \<lparr>tv_sec = 1700000000, tv_nsec = 750000000\<rparr>)]"
proof -
  let ?ts = "\<lparr>tv_sec = 1700000000, tv_nsec = 750000000\<rparr>"
  have h: "\<not> win32 linux_target" "sem_object \<lparr>sem_name = ''/s'', sem_object = 4096\<rparr> \<noteq> nullptr"
    "(1500 :: 32 word) \<noteq> INFINITE" "clock (scripted []) (length (trace (scripted []))) = ?ts"
    "0 \<le> sint (tv_nsec ?ts)" "sint (tv_nsec ?ts) < 1000000000"
    "(nanoseconds ?ts + uint (1500 :: 32 word) * 1000000) div 1000000000 < 2 ^ 63"
    by (simp_all add: linux_target_def nullptr_def INFINITE_def scripted_def nanoseconds_def)
  have d: "wait_deadline 1500 ?ts = \<lparr>tv_sec = 1700000002, tv_nsec = 250000000\<rparr>"
    by (simp add: wait_deadline_def)
  from wait_deadline_exact [OF h] d show ?thesis
    by (simp add: scripted_def)
qed

text \<open>
  Without the bound the claim fails: at the largest clock reading a timeout of one
  second wraps the seconds, and the deadline lies before the clock reading.
\<close>

theorem wait_deadline_overflow_counterexample:
  "(1000 :: 32 word) \<noteq> INFINITE
   \<and> sint (tv_nsec \<lparr>tv_sec = 9223372036854775807, tv_nsec = 0\<rparr>) = 0
   \<and> sint (tv_sec \<lparr>tv_sec = 9223372036854775807, tv_nsec = 0\<rparr>) = 9223372036854775807
   \<and> sint (tv_sec (wait_deadline 1000 \<lparr>tv_sec = 9223372036854775807, tv_nsec = 0\<rparr>))
       = - 9223372036854775808
   \<and> nanoseconds (wait_deadline 1000 \<lparr>tv_sec = 9223372036854775807, tv_nsec = 0\<rparr>)
       < nanoseconds \<lparr>tv_sec = 9223372036854775807, tv_nsec = 0\<rparr>"
  by (simp add: wait_deadline_def INFINITE_def nanoseconds_def)

end
